theory Spec2Isabelle
  imports Main "HOL-Library.Word"
begin

unbundle bit_operations_syntax

section \<open>The pixel buffer of cam2web: \<open>src/core/XImage.cpp\<close>\<close>

text \<open>
  The file defines three format helpers (\<open>XImageBitsPerPixel\<close>,
  \<open>XImageBytesPerStride\<close>, \<open>XImageBytesPerLine\<close>) and the class \<open>XImage\<close> with its
  constructor, destructor, \<open>Allocate\<close>, \<open>Create\<close>, \<open>Clone\<close>, \<open>CopyData\<close> and
  \<open>CopyDataOrClone\<close>. The embedding below follows the file function by function.

  Machine integers: \<open>int32_t\<close> and \<open>uint32_t\<close> are 32-bit words (\<open>+\<close> and \<open>*\<close> wrap,
  \<open>sint\<close> reads the signed value, \<open>unat\<close> the unsigned one). \<open>size_t\<close> is taken to be
  64 bits wide and is a natural number below \<open>2 ^ 64\<close>, the conversion from \<open>int\<close>
  written out as \<open>mod 2 ^ 64\<close>. A pointer \<open>uint8_t*\<close> is an address, an integer; \<open>0\<close>
  is \<open>nullptr\<close>.
\<close>

type_synonym int32_t = "32 word"
type_synonym uint32_t = "32 word"
type_synonym uint8_t = "8 word"
type_synonym addr = int
type_synonym handle = nat

text \<open>
  Modelled from the spec: \<open>XPixelFormat\<close> is declared in \<open>XImage.hpp\<close>, which is not part
  of the sources. The spec calls it an enumerated tag; the code only ever reads it through
  \<open>static_cast<int>\<close> and compares it for equality, so the tag is represented by its
  \<open>int\<close> value.
\<close>

type_synonym XPixelFormat = "32 word"

text \<open>
  Modelled from the spec: \<open>XError\<close> is declared in a header that is not part of the
  sources. These are the four values the file uses (the spec's section 7 lists the same four).
\<close>

datatype XError = Success | NullPointer | ImageParametersMismatch | OutOfMemory

subsection \<open>Format helpers\<close>

text \<open>The conversion of an \<open>int\<close> to \<open>size_t\<close> (usual arithmetic conversions).\<close>

definition size_t_of_int :: "int \<Rightarrow> nat" where
  "size_t_of_int x = nat (x mod 2 ^ 64)"

text \<open>\<^verbatim>\<open>static int sizes[] = { 0, 8, 24, 32, 8 };\<close>\<close>

definition sizes :: "int32_t list" where
  "sizes = [0, 8, 24, 32, 8]"

text \<open>
  Reading \<open>sizes[i]\<close>. C++ gives a read outside the array no meaning; the model makes it
  the value \<open>None\<close>, so that a function that never reads out of range is one that never
  returns \<open>None\<close>.
\<close>

definition sizes_at :: "int \<Rightarrow> int32_t option" where
  "sizes_at i = (if 0 \<le> i \<and> i < int (length sizes) then Some (sizes ! nat i) else None)"

text \<open>
  \<^verbatim>\<open>int formatIndex = static_cast<int>( format );
return ( formatIndex >= ( sizeof( sizes ) / sizeof( sizes[0] ) ) ) ? 0 : sizes[formatIndex];\<close>
  The right operand of \<open>>=\<close> has type \<open>size_t\<close>, so \<open>formatIndex\<close> is converted to
  \<open>size_t\<close> before the comparison.
\<close>

definition XImageBitsPerPixel :: "XPixelFormat \<Rightarrow> uint32_t option" where
  "XImageBitsPerPixel format =
     (let formatIndex = sint format
      in if size_t_of_int formatIndex \<ge> length sizes then Some 0
         else sizes_at formatIndex)"

text \<open>
  The value a caller of \<open>XImageBitsPerPixel\<close> computes with. The read is never out of
  range (lemma \<open>XImageBitsPerPixel_value\<close> below), so the second branch is never taken.
\<close>

definition bitsPerPixel :: "XPixelFormat \<Rightarrow> uint32_t" where
  "bitsPerPixel format = (case XImageBitsPerPixel format of Some b \<Rightarrow> b | None \<Rightarrow> 0)"

text \<open>\<^verbatim>\<open>return ( ( bitsPerLine + 31 ) & ~31 ) >> 3;\<close>\<close>

definition XImageBytesPerStride :: "uint32_t \<Rightarrow> uint32_t" where
  "XImageBytesPerStride bitsPerLine = drop_bit 3 ((bitsPerLine + 31) AND NOT 31)"

text \<open>\<^verbatim>\<open>return ( bitsPerLine + 7 ) >> 3;\<close>\<close>

definition XImageBytesPerLine :: "uint32_t \<Rightarrow> uint32_t" where
  "XImageBytesPerLine bitsPerLine = drop_bit 3 (bitsPerLine + 7)"

subsection \<open>Images, memory and handles\<close>

text \<open>The data members of \<open>XImage\<close>, as the constructor's initialiser list names them.\<close>

record XImage =
  mData :: addr
  mWidth :: int32_t
  mHeight :: int32_t
  mStride :: int32_t
  mFormat :: XPixelFormat
  mOwnMemory :: bool

text \<open>
  The state the file's functions act on:
  \<^item> \<open>memory\<close>: the bytes, one per address (flat: the model does not stop a copy
    that leaves a block, it writes where the code writes);
  \<^item> \<open>allocated\<close>: the blocks \<open>malloc\<close>/\<open>calloc\<close> have handed out and \<open>free\<close> has not
    taken back, each with its size in bytes;
  \<^item> \<open>objects\<close>: the \<open>XImage\<close> objects that \<open>shared_ptr\<close>s manage, each with its
    use count.
  A \<open>shared_ptr<XImage>\<close> is a \<open>handle option\<close>: \<open>None\<close> is the empty pointer.
\<close>

record state =
  memory :: "addr \<Rightarrow> uint8_t"
  allocated :: "addr \<rightharpoonup> nat"
  objects :: "handle \<rightharpoonup> XImage \<times> nat"

text \<open>
  What the C++ runtime answers when the code asks it for memory: the pointer that
  \<open>malloc\<close>/\<open>calloc\<close> returns (\<open>0\<close> when it fails), the object that
  \<open>new (nothrow) XImage\<close> returns (\<open>None\<close> when it fails), and whether the throwing
  \<open>new\<close> inside the constructor of \<open>shared_ptr\<close>, which allocates the control block,
  gets its memory. Every function of the file asks at most once for each, so one answer
  of each kind is a parameter of the functions that allocate.
\<close>

record runtime =
  malloc_result :: addr
  new_result :: "handle option"
  control_block :: bool

text \<open>
  A call either returns a value or is left by \<open>std::bad_alloc\<close> (nothing in the file
  catches it); either way it leaves a state behind.
\<close>

datatype 'a outcome = Returns 'a state | Throws state

primrec returned :: "'a outcome \<Rightarrow> 'a option" where
  "returned (Returns x st) = Some x"
| "returned (Throws st) = None"

primrec state_of :: "'a outcome \<Rightarrow> state" where
  "state_of (Returns x st) = st"
| "state_of (Throws st) = st"

definition malloc :: "runtime \<Rightarrow> nat \<Rightarrow> state \<Rightarrow> addr \<times> state" where
  "malloc rt n st =
     (if malloc_result rt = 0 then (0, st)
      else (malloc_result rt, st\<lparr>allocated := (allocated st)(malloc_result rt \<mapsto> n)\<rparr>))"

definition calloc :: "runtime \<Rightarrow> nat \<Rightarrow> nat \<Rightarrow> state \<Rightarrow> addr \<times> state" where
  "calloc rt nmemb n st =
     (if malloc_result rt = 0 then (0, st)
      else (malloc_result rt,
            st\<lparr>allocated := (allocated st)(malloc_result rt \<mapsto> nmemb * n),
               memory := (\<lambda>a. if malloc_result rt \<le> a \<and> a < malloc_result rt + int (nmemb * n)
                               then 0 else memory st a)\<rparr>))"

definition free :: "addr \<Rightarrow> state \<Rightarrow> state" where
  "free p st = st\<lparr>allocated := (allocated st)(p := None)\<rparr>"

text \<open>
  \<open>memcpy( dst, src, n )\<close>: the \<open>n\<close> bytes from \<open>src\<close> on are written from \<open>dst\<close> on;
  no other byte changes. (C gives overlapping ranges no meaning; here every byte written
  is read from the memory before the call.)
\<close>

definition memcpy :: "addr \<Rightarrow> addr \<Rightarrow> nat \<Rightarrow> (addr \<Rightarrow> uint8_t) \<Rightarrow> (addr \<Rightarrow> uint8_t)" where
  "memcpy dst src n m = (\<lambda>a. if dst \<le> a \<and> a < dst + int n then m (src + (a - dst)) else m a)"

text \<open>
  The object a \<open>shared_ptr\<close> points to; the empty pointer points to none. (A
  \<open>shared_ptr\<close> that is not empty always manages an object; a handle that names no
  object of the state is read as the empty pointer.)
\<close>

definition deref :: "state \<Rightarrow> handle option \<Rightarrow> XImage option" where
  "deref st p = (case p of None \<Rightarrow> None | Some h \<Rightarrow> map_option fst (objects st h))"

subsection \<open>Constructor and destructor\<close>

text \<open>
  \<^verbatim>\<open>XImage::XImage( uint8_t* data, int32_t width, int32_t height, int32_t stride,
                XPixelFormat format, bool ownMemory ) :
    mData( data ), mWidth( width ), mHeight( height ), mStride( stride ),
    mFormat( format ), mOwnMemory( ownMemory )\<close>
\<close>

definition XImage_ctor ::
    "addr \<Rightarrow> int32_t \<Rightarrow> int32_t \<Rightarrow> int32_t \<Rightarrow> XPixelFormat \<Rightarrow> bool \<Rightarrow> XImage" where
  "XImage_ctor data width height stride format ownMemory =
     \<lparr>mData = data, mWidth = width, mHeight = height, mStride = stride,
      mFormat = format, mOwnMemory = ownMemory\<rparr>"

text \<open>
  \<^verbatim>\<open>if ( ( mOwnMemory ) && ( mData != nullptr ) ) { free( mData ); }\<close>
\<close>

definition XImage_dtor :: "XImage \<Rightarrow> state \<Rightarrow> state" where
  "XImage_dtor this st =
     (if mOwnMemory this \<and> mData this \<noteq> 0 then free (mData this) st else st)"

text \<open>
  \<open>new (nothrow) XImage( ... )\<close>: the object, with the members the constructor gave it,
  or \<open>nullptr\<close> (\<open>None\<close>).
\<close>

definition new_nothrow :: "runtime \<Rightarrow> XImage \<Rightarrow> (handle \<times> XImage) option" where
  "new_nothrow rt img = (case new_result rt of None \<Rightarrow> None | Some h \<Rightarrow> Some (h, img))"

text \<open>
  \<open>shared_ptr<XImage>( p )\<close> for a raw pointer \<open>p\<close>. The constructor allocates the
  control block with a throwing \<open>new\<close>, for a null \<open>p\<close> as well. When it gets the
  memory, the pointer manages the object with use count 1, and a null \<open>p\<close> gives a
  pointer that tests as empty. When it does not, the constructor calls \<open>delete p\<close>,
  which runs the destructor of a non-null \<open>p\<close>, and \<open>std::bad_alloc\<close> leaves the
  function.
\<close>

definition shared_ptr_ctor ::
    "runtime \<Rightarrow> (handle \<times> XImage) option \<Rightarrow> state \<Rightarrow> handle option outcome" where
  "shared_ptr_ctor rt p st =
     (if control_block rt
      then (case p of
              None \<Rightarrow> Returns None st
            | Some (h, img) \<Rightarrow> Returns (Some h) (st\<lparr>objects := (objects st)(h \<mapsto> (img, 1))\<rparr>))
      else (case p of
              None \<Rightarrow> Throws st
            | Some (h, img) \<Rightarrow> Throws (XImage_dtor img st)))"

text \<open>
  A \<open>shared_ptr\<close> gives up its object (its destructor, \<open>reset( )\<close>, or an assignment that
  replaces what it held): the use count drops by one, and the holder that was the last
  one destroys the object.
\<close>

definition release :: "handle option \<Rightarrow> state \<Rightarrow> state" where
  "release p st =
     (case p of
        None \<Rightarrow> st
      | Some h \<Rightarrow>
          (case objects st h of
             None \<Rightarrow> st
           | Some (img, n) \<Rightarrow>
               if n \<le> 1 then XImage_dtor img (st\<lparr>objects := (objects st)(h := None)\<rparr>)
               else st\<lparr>objects := (objects st)(h \<mapsto> (img, n - 1))\<rparr>))"

subsection \<open>Allocate and Create\<close>

text \<open>
  \<^verbatim>\<open>int32_t  stride = (int32_t) XImageBytesPerStride( width * XImageBitsPerPixel( format ) );
...
if ( zeroInitialize ) { data = (uint8_t*) calloc( 1, height * stride ); }
else                  { data = (uint8_t*) malloc( height * stride ); }
if ( data != nullptr )
{ image = new (nothrow) XImage( data, width, height, stride, format, true ); }
return shared_ptr<XImage>( image );\<close>
  \<open>width * XImageBitsPerPixel( format )\<close> is an unsigned 32-bit product and wraps.
  \<open>height * stride\<close> is a product of two \<open>int32_t\<close>, converted to \<open>size_t\<close>; C++ gives
  its overflow no meaning, and the model lets it wrap as the hardware does.
\<close>

definition Allocate ::
    "runtime \<Rightarrow> int32_t \<Rightarrow> int32_t \<Rightarrow> XPixelFormat \<Rightarrow> bool \<Rightarrow> state \<Rightarrow> handle option outcome" where
  "Allocate rt width height format zeroInitialize st =
     (let stride = XImageBytesPerStride (width * bitsPerPixel format);
          (data, st1) =
             (if zeroInitialize then calloc rt 1 (size_t_of_int (sint (height * stride))) st
              else malloc rt (size_t_of_int (sint (height * stride))) st);
          image = (if data \<noteq> 0
                   then new_nothrow rt (XImage_ctor data width height stride format True)
                   else None)
      in shared_ptr_ctor rt image st1)"

text \<open>
  \<^verbatim>\<open>return shared_ptr<XImage>( new (nothrow) XImage( data, width, height, stride, format, false ) );\<close>
\<close>

definition Create ::
    "runtime \<Rightarrow> addr \<Rightarrow> int32_t \<Rightarrow> int32_t \<Rightarrow> int32_t \<Rightarrow> XPixelFormat \<Rightarrow> state
      \<Rightarrow> handle option outcome" where
  "Create rt data width height stride format st =
     shared_ptr_ctor rt (new_nothrow rt (XImage_ctor data width height stride format False)) st"

subsection \<open>CopyData\<close>

text \<open>
  The loop of \<open>CopyData\<close>:
  \<^verbatim>\<open>for ( int y = 0; y < mHeight; y++ )
{
    memcpy( dstPtr, srcPtr, lineSize );
    srcPtr += mStride;
    dstPtr += dstStride;
}\<close>
\<close>

function CopyData_loop ::
    "int \<Rightarrow> int \<Rightarrow> addr \<Rightarrow> addr \<Rightarrow> int \<Rightarrow> int \<Rightarrow> nat \<Rightarrow> (addr \<Rightarrow> uint8_t) \<Rightarrow> (addr \<Rightarrow> uint8_t)" where
  "CopyData_loop y height srcPtr dstPtr srcStride dstStride lineSize m =
     (if y < height
      then CopyData_loop (y + 1) height (srcPtr + srcStride) (dstPtr + dstStride)
             srcStride dstStride lineSize (memcpy dstPtr srcPtr lineSize m)
      else m)"
  by pat_completeness auto
termination
  by (relation "measure (\<lambda>(y, height, _). nat (height - y))") auto

declare CopyData_loop.simps [simp del]

text \<open>
  \<^verbatim>\<open>if ( ( mData == nullptr ) || ( !copyTo ) || ( copyTo->mData == nullptr ) )
{ ret = XError::NullPointer; }
else if ( ( mWidth != copyTo->mWidth ) || ( mHeight != copyTo->mHeight ) ||
          ( mFormat != copyTo->mFormat ) )
{ ret = XError::ImageParametersMismatch; }
else
{
    uint32_t lineSize  = XImageBytesPerLine( mWidth * XImageBitsPerPixel( mFormat ) );
    uint8_t* srcPtr    = mData;
    uint8_t* dstPtr    = copyTo->mData;
    int32_t  dstStride = copyTo->mStride;
    ... the loop ...
}\<close>
  \<open>this\<close> is given by its data members, \<open>copyTo\<close> by its handle.
\<close>

definition CopyData :: "XImage \<Rightarrow> handle option \<Rightarrow> state \<Rightarrow> XError \<times> state" where
  "CopyData this copyTo st =
     (case deref st copyTo of
        None \<Rightarrow> (NullPointer, st)
      | Some to \<Rightarrow>
          if mData this = 0 \<or> mData to = 0 then (NullPointer, st)
          else if mWidth this \<noteq> mWidth to \<or> mHeight this \<noteq> mHeight to
                  \<or> mFormat this \<noteq> mFormat to
          then (ImageParametersMismatch, st)
          else
            (let lineSize = XImageBytesPerLine (mWidth this * bitsPerPixel (mFormat this));
                 srcPtr = mData this;
                 dstPtr = mData to;
                 dstStride = mStride to
             in (Success,
                 st\<lparr>memory := CopyData_loop 0 (sint (mHeight this)) srcPtr dstPtr
                                 (sint (mStride this)) (sint dstStride) (unat lineSize)
                                 (memory st)\<rparr>)))"

subsection \<open>Clone and CopyDataOrClone\<close>

text \<open>
  \<^verbatim>\<open>shared_ptr<XImage> clone;
if ( mData != nullptr )
{
    clone = Allocate( mWidth, mHeight, mFormat );
    if ( clone )
    {
        if ( CopyData( clone ) != XError::Success ) { clone.reset( ); }
    }
}
return clone;\<close>
  Modelled from the spec: the call leaves \<open>zeroInitialize\<close> to its default, which the
  missing header declares; the spec gives \<open>zeroInit=false\<close>.
\<close>

definition Clone :: "runtime \<Rightarrow> XImage \<Rightarrow> state \<Rightarrow> handle option outcome" where
  "Clone rt this st =
     (if mData this \<noteq> 0
      then
        (case Allocate rt (mWidth this) (mHeight this) (mFormat this) False st of
           Throws st1 \<Rightarrow> Throws st1
         | Returns clone st1 \<Rightarrow>
             if clone \<noteq> None
             then
               (case CopyData this clone st1 of
                  (ret, st2) \<Rightarrow>
                    if ret \<noteq> Success then Returns None (release clone st2)
                    else Returns clone st2)
             else Returns clone st1)
      else Returns None st)"

text \<open>
  \<^verbatim>\<open>if ( ( !copyTo ) ||
     ( copyTo->Width( )  != mWidth  ) ||
     ( copyTo->Height( ) != mHeight ) ||
     ( copyTo->Format( ) != mFormat ) )
{
    copyTo = Clone( );
    if ( !copyTo ) { ret = XError::OutOfMemory; }
}
else
{
    ret = CopyData( copyTo );
}
return ret;\<close>
  \<open>copyTo\<close> is a reference to the caller's \<open>shared_ptr\<close>: the function returns the error
  and what the caller's pointer holds afterwards. The assignment \<open>copyTo = Clone( )\<close>
  evaluates \<open>Clone( )\<close> first and then makes \<open>copyTo\<close> give up what it held; when
  \<open>Clone( )\<close> is left by \<open>std::bad_alloc\<close>, nothing is assigned and the caller's
  pointer holds what it held.
  Modelled from the spec: the accessors \<open>Width( )\<close>, \<open>Height( )\<close> and \<open>Format( )\<close> are
  defined in the missing header; they read \<open>mWidth\<close>, \<open>mHeight\<close> and \<open>mFormat\<close>.
\<close>

definition CopyDataOrClone ::
    "runtime \<Rightarrow> XImage \<Rightarrow> handle option \<Rightarrow> state \<Rightarrow> (XError \<times> handle option) outcome" where
  "CopyDataOrClone rt this copyTo st =
     (if (case deref st copyTo of
            None \<Rightarrow> True
          | Some to \<Rightarrow> mWidth to \<noteq> mWidth this \<or> mHeight to \<noteq> mHeight this
                       \<or> mFormat to \<noteq> mFormat this)
      then
        (case Clone rt this st of
           Throws st1 \<Rightarrow> Throws st1
         | Returns clone st1 \<Rightarrow>
             Returns (if clone = None then OutOfMemory else Success, clone)
               (release copyTo st1))
      else
        (case CopyData this copyTo st of (ret, st1) \<Rightarrow> Returns (ret, copyTo) st1))"

subsection \<open>Vocabulary of the properties\<close>

text \<open>Two images agree in width, height and format.\<close>

definition same_format :: "XImage \<Rightarrow> XImage \<Rightarrow> bool" where
  "same_format a b = (mWidth a = mWidth b \<and> mHeight a = mHeight b \<and> mFormat a = mFormat b)"


text \<open>The object \<open>new\<close> returns, if any, is not one already in use.\<close>

definition fresh :: "runtime \<Rightarrow> state \<Rightarrow> bool" where
  "fresh rt st = (case new_result rt of None \<Rightarrow> True | Some h \<Rightarrow> objects st h = None)"

text \<open>
  Every object of the first state that is still an object of the second has the data
  members it had: no member of a live image was written.
\<close>

definition objects_kept :: "state \<Rightarrow> state \<Rightarrow> bool" where
  "objects_kept st st' =
     (\<forall>k img n. objects st k = Some (img, n) \<longrightarrow>
        (case objects st' k of None \<Rightarrow> True | Some (img', n') \<Rightarrow> img' = img))"

text \<open>
  The number of bytes of a row that \<open>CopyData\<close> copies and the number of rows its loop
  runs over (none when \<open>mHeight\<close> is zero or negative), computed as \<open>CopyData\<close> does.
\<close>

definition lineSize :: "XImage \<Rightarrow> nat" where
  "lineSize img = unat (XImageBytesPerLine (mWidth img * bitsPerPixel (mFormat img)))"

definition rowCount :: "XImage \<Rightarrow> nat" where
  "rowCount img = nat (sint (mHeight img))"

text \<open>
  Addresses: \<open>in_range p n a\<close> says that \<open>a\<close> is one of the \<open>n\<close> bytes from \<open>p\<close> on;
  \<open>in_rows p stride h n a\<close> that \<open>a\<close> is among the first \<open>n\<close> bytes of one of the \<open>h\<close>
  rows that start at \<open>p\<close>, \<open>p + stride\<close>, ...
\<close>

definition in_range :: "addr \<Rightarrow> nat \<Rightarrow> addr \<Rightarrow> bool" where
  "in_range p n a = (p \<le> a \<and> a < p + int n)"

definition in_rows :: "addr \<Rightarrow> int \<Rightarrow> nat \<Rightarrow> nat \<Rightarrow> addr \<Rightarrow> bool" where
  "in_rows p stride h n a = (\<exists>y<h. in_range (p + int y * stride) n a)"

text \<open>
  Two ranges of \<open>n\<close> bytes share no byte; no row of one image shares a byte with a row
  of another; the rows of one image share no byte with each other.
\<close>

definition ranges_apart :: "addr \<Rightarrow> addr \<Rightarrow> nat \<Rightarrow> bool" where
  "ranges_apart p q n = (n = 0 \<or> p + int n \<le> q \<or> q + int n \<le> p)"

definition rows_apart :: "addr \<Rightarrow> int \<Rightarrow> addr \<Rightarrow> int \<Rightarrow> nat \<Rightarrow> nat \<Rightarrow> bool" where
  "rows_apart p ps q qs h n =
     (\<forall>y<h. \<forall>y'<h. ranges_apart (p + int y * ps) (q + int y' * qs) n)"







subsection \<open>A concrete state\<close>

text \<open>
  Three images and a data-less one: a wrapped 3x3 image of 32 bits per pixel with stride
  12 at address 1000, a wrapped one of the same size with stride 16 at address 2000, an
  owned 2x2 one at address 3000. Every byte of the memory holds its own address modulo 256.
\<close>

definition ex_src :: XImage where
  "ex_src = \<lparr>mData = 1000, mWidth = 3, mHeight = 3, mStride = 12, mFormat = 3,
             mOwnMemory = False\<rparr>"

definition ex_dst :: XImage where
  "ex_dst = \<lparr>mData = 2000, mWidth = 3, mHeight = 3, mStride = 16, mFormat = 3,
             mOwnMemory = False\<rparr>"

definition ex_small :: XImage where
  "ex_small = \<lparr>mData = 3000, mWidth = 2, mHeight = 2, mStride = 8, mFormat = 3,
               mOwnMemory = True\<rparr>"

definition ex_null :: XImage where
  "ex_null = \<lparr>mData = 0, mWidth = 3, mHeight = 3, mStride = 12, mFormat = 3,
              mOwnMemory = False\<rparr>"

definition ex_state :: state where
  "ex_state = \<lparr>memory = (\<lambda>a. word_of_int a), allocated = [3000 \<mapsto> 16],
     objects = [1 \<mapsto> (ex_src, 1), 2 \<mapsto> (ex_dst, 1), 3 \<mapsto> (ex_small, 1)]\<rparr>"

definition ex_rt :: runtime where
  "ex_rt = \<lparr>malloc_result = 5000, new_result = Some 4, control_block = True\<rparr>"

definition ex_rt_throw :: runtime where
  "ex_rt_throw = \<lparr>malloc_result = 5000, new_result = Some 4, control_block = False\<rparr>"

definition ex_rt_fail :: runtime where
  "ex_rt_fail = \<lparr>malloc_result = 0, new_result = Some 4, control_block = True\<rparr>"

text \<open>
  A wrapped image 536870911 pixels wide, of 8 bits per pixel and two rows, at address
  \<open>2 ^ 31\<close>: a row has 536870911 bytes and the rows are 536870915 bytes apart.
\<close>

definition ex_wide :: XImage where
  "ex_wide = \<lparr>mData = 2147483648, mWidth = 536870911, mHeight = 2, mStride = 536870915,
              mFormat = 1, mOwnMemory = False\<rparr>"





section \<open>Properties\<close>

subsection \<open>Format helpers\<close>

lemma length_sizes: "length sizes = 5"
  by (simp add: sizes_def)

lemma sint_small_cases:
  fixes t :: "32 word"
  assumes "0 \<le> sint t" "sint t < 5"
  shows "t = 0 \<or> t = 1 \<or> t = 2 \<or> t = 3 \<or> t = 4"
proof -
  from assms have "sint t = 0 \<or> sint t = 1 \<or> sint t = 2 \<or> sint t = 3 \<or> sint t = 4"
    by arith
  moreover have "t = word_of_int (sint t)" by simp
  ultimately show ?thesis by (metis of_int_0 of_int_1 of_int_numeral)
qed

lemma size_t_of_int_nonneg: "0 \<le> x \<Longrightarrow> x < 2 ^ 64 \<Longrightarrow> size_t_of_int x = nat x"
  by (simp add: size_t_of_int_def)

lemma size_t_of_int_neg:
  assumes "x < 0" "- (2 ^ 64) \<le> x"
  shows "size_t_of_int x = nat (x + 2 ^ 64)"
proof -
  have "x mod 2 ^ 64 = (x + 2 ^ 64) mod 2 ^ 64" by simp
  also have "\<dots> = x + 2 ^ 64" using assms by (intro mod_pos_pos_trivial) simp_all
  finally show ?thesis by (simp add: size_t_of_int_def)
qed

lemma sint32_bounds:
  fixes t :: "32 word"
  shows "- (2 ^ 31) \<le> sint t" "sint t < 2 ^ 31"
  using sint_ge[of t] sint_lt[of t] by simp_all

lemma XImageBitsPerPixel_value:
  "XImageBitsPerPixel t =
     Some (if t = 1 then 8 else if t = 2 then 24 else if t = 3 then 32
           else if t = 4 then 8 else 0)"
proof (cases "0 \<le> sint t \<and> sint t < 5")
  case True
  then have "t = 0 \<or> t = 1 \<or> t = 2 \<or> t = 3 \<or> t = 4"
    using sint_small_cases by blast
  then show ?thesis
    by (auto simp: XImageBitsPerPixel_def size_t_of_int_def sizes_def sizes_at_def)
next
  case False
  from False have ne: "t \<noteq> 1" "t \<noteq> 2" "t \<noteq> 3" "t \<noteq> 4" by auto
  have "5 \<le> size_t_of_int (sint t)"
  proof (cases "sint t < 0")
    case True
    then have "size_t_of_int (sint t) = nat (sint t + 2 ^ 64)"
      using sint32_bounds[of t] by (intro size_t_of_int_neg) simp_all
    then show ?thesis using sint32_bounds[of t] by simp
  next
    case F2: False
    with False have "5 \<le> sint t" by simp
    moreover have "size_t_of_int (sint t) = nat (sint t)"
      using sint32_bounds[of t] F2 by (intro size_t_of_int_nonneg) simp_all
    ultimately show ?thesis by simp
  qed
  then show ?thesis using ne
    by (simp add: XImageBitsPerPixel_def Let_def length_sizes)
qed

lemma bitsPerPixel_value:
  "bitsPerPixel t =
     (if t = 1 then 8 else if t = 2 then 24 else if t = 3 then 32 else if t = 4 then 8 else 0)"
  unfolding bitsPerPixel_def XImageBitsPerPixel_value by simp

text \<open>
  C6. For every format tag \<open>t\<close>, \<open>XImageBitsPerPixel t\<close> is 0, 8, 24, 32, 8 for the tags
  0, 1, 2, 3, 4 and 0 for every other tag, negative tags included; it is never the
  out-of-range read \<open>None\<close>.
\<close>

theorem C6_BitsPerPixel_table:
  "XImageBitsPerPixel t =
     Some (if t = 0 then 0 else if t = 1 then 8 else if t = 2 then 24
           else if t = 3 then 32 else if t = 4 then 8 else 0)
   \<and> XImageBitsPerPixel t \<noteq> None"
  unfolding XImageBitsPerPixel_value by simp

theorem C6_BitsPerPixel_table_witness:
  "XImageBitsPerPixel 0 = Some 0 \<and> XImageBitsPerPixel 1 = Some 8
   \<and> XImageBitsPerPixel 2 = Some 24 \<and> XImageBitsPerPixel 3 = Some 32
   \<and> XImageBitsPerPixel 4 = Some 8 \<and> XImageBitsPerPixel 5 = Some 0
   \<and> XImageBitsPerPixel (- 1) = Some 0 \<and> XImageBitsPerPixel 2147483647 = Some 0
   \<and> XImageBitsPerPixel (- 2147483648) = Some 0"
  using C6_BitsPerPixel_table [of 0] C6_BitsPerPixel_table [of 1]
    C6_BitsPerPixel_table [of 2] C6_BitsPerPixel_table [of 3]
    C6_BitsPerPixel_table [of 4] C6_BitsPerPixel_table [of 5]
    C6_BitsPerPixel_table [of "- 1"] C6_BitsPerPixel_table [of 2147483647]
    C6_BitsPerPixel_table [of "- 2147483648"]
  by simp

subsection \<open>CopyData: results\<close>

lemma CopyData_NullPointer:
  "mData this = 0 \<or> deref st copyTo = None \<or> (\<exists>to. deref st copyTo = Some to \<and> mData to = 0)
   \<Longrightarrow> CopyData this copyTo st = (NullPointer, st)"
  by (auto simp: CopyData_def split: option.splits)

lemma CopyData_Mismatch:
  "deref st copyTo = Some to \<Longrightarrow> mData this \<noteq> 0 \<Longrightarrow> mData to \<noteq> 0 \<Longrightarrow> \<not> same_format this to
   \<Longrightarrow> CopyData this copyTo st = (ImageParametersMismatch, st)"
  by (auto simp: CopyData_def same_format_def)

lemma CopyData_Success:
  "deref st copyTo = Some to \<Longrightarrow> mData this \<noteq> 0 \<Longrightarrow> mData to \<noteq> 0 \<Longrightarrow> same_format this to
   \<Longrightarrow> CopyData this copyTo st =
       (Success, st\<lparr>memory := CopyData_loop 0 (sint (mHeight this)) (mData this) (mData to)
                         (sint (mStride this)) (sint (mStride to))
                         (unat (XImageBytesPerLine (mWidth this * bitsPerPixel (mFormat this))))
                         (memory st)\<rparr>)"
  by (simp add: CopyData_def same_format_def Let_def)

lemma CopyData_failure_unchanged:
  "fst (CopyData this copyTo st) \<noteq> Success \<Longrightarrow> snd (CopyData this copyTo st) = st"
  by (auto simp: CopyData_def Let_def split: option.splits if_splits)

lemma CopyData_objects [simp]: "objects (snd (CopyData this copyTo st)) = objects st"
  by (auto simp: CopyData_def Let_def split: option.splits)

lemma CopyData_allocated [simp]: "allocated (snd (CopyData this copyTo st)) = allocated st"
  by (auto simp: CopyData_def Let_def split: option.splits)

text \<open>
  C3. \<open>CopyData\<close> returns \<open>NullPointer\<close> when the source's buffer is empty, the
  destination pointer is empty or the destination's buffer is empty; with both buffers
  there, it returns \<open>ImageParametersMismatch\<close> when the two images differ in width,
  height or format, and \<open>Success\<close> otherwise (the null check is the first of the chain:
  images that differ never give \<open>Success\<close>). Whenever the result is not \<open>Success\<close>,
  the state, and with it every byte of the destination's buffer, is what it was.
\<close>

theorem C3_CopyData_errors:
  "(mData this = 0 \<or> deref st copyTo = None \<or> (\<exists>to. deref st copyTo = Some to \<and> mData to = 0)
      \<longrightarrow> CopyData this copyTo st = (NullPointer, st))
   \<and> (\<forall>to. deref st copyTo = Some to \<and> mData this \<noteq> 0 \<and> mData to \<noteq> 0 \<and> \<not> same_format this to
      \<longrightarrow> CopyData this copyTo st = (ImageParametersMismatch, st))
   \<and> (\<forall>to. deref st copyTo = Some to \<and> \<not> same_format this to
      \<longrightarrow> fst (CopyData this copyTo st) \<noteq> Success \<and> snd (CopyData this copyTo st) = st)
   \<and> (\<forall>to. deref st copyTo = Some to \<and> mData this \<noteq> 0 \<and> mData to \<noteq> 0 \<and> same_format this to
      \<longrightarrow> fst (CopyData this copyTo st) = Success)
   \<and> (fst (CopyData this copyTo st) \<noteq> Success \<longrightarrow> snd (CopyData this copyTo st) = st)"
proof (intro conjI allI impI)
  assume "mData this = 0 \<or> deref st copyTo = None \<or> (\<exists>to. deref st copyTo = Some to \<and> mData to = 0)"
  then show "CopyData this copyTo st = (NullPointer, st)" by (rule CopyData_NullPointer)
next
  fix to
  assume "deref st copyTo = Some to \<and> mData this \<noteq> 0 \<and> mData to \<noteq> 0 \<and> \<not> same_format this to"
  then show "CopyData this copyTo st = (ImageParametersMismatch, st)"
    by (simp add: CopyData_Mismatch)
next
  fix to
  assume a: "deref st copyTo = Some to \<and> \<not> same_format this to"
  show "fst (CopyData this copyTo st) \<noteq> Success"
  proof (cases "mData this = 0 \<or> mData to = 0")
    case True
    with a have "CopyData this copyTo st = (NullPointer, st)"
      by (intro CopyData_NullPointer) auto
    then show ?thesis by simp
  next
    case False
    with a have "CopyData this copyTo st = (ImageParametersMismatch, st)"
      by (simp add: CopyData_Mismatch)
    then show ?thesis by simp
  qed
  then show "snd (CopyData this copyTo st) = st" by (rule CopyData_failure_unchanged)
next
  fix to
  assume "deref st copyTo = Some to \<and> mData this \<noteq> 0 \<and> mData to \<noteq> 0 \<and> same_format this to"
  then show "fst (CopyData this copyTo st) = Success"
    by (simp add: CopyData_Success)
next
  assume "fst (CopyData this copyTo st) \<noteq> Success"
  then show "snd (CopyData this copyTo st) = st" by (rule CopyData_failure_unchanged)
qed

lemma ex_deref [simp]:
  "deref ex_state (Some 1) = Some ex_src" "deref ex_state (Some 2) = Some ex_dst"
  "deref ex_state (Some 3) = Some ex_small" "deref ex_state None = None"
  "deref ex_state (Some 4) = None"
  by (simp_all add: deref_def ex_state_def)

theorem C3_CopyData_errors_witness:
  "CopyData ex_null (Some 2) ex_state = (NullPointer, ex_state)
   \<and> CopyData ex_src None ex_state = (NullPointer, ex_state)
   \<and> CopyData ex_src (Some 3) ex_state = (ImageParametersMismatch, ex_state)
   \<and> fst (CopyData ex_src (Some 2) ex_state) = Success"
  using C3_CopyData_errors [of ex_null ex_state "Some 2"]
    C3_CopyData_errors [of ex_src ex_state None]
    C3_CopyData_errors [of ex_src ex_state "Some 3"]
    C3_CopyData_errors [of ex_src ex_state "Some 2"]
  by (simp add: ex_null_def ex_src_def ex_dst_def ex_small_def same_format_def)


subsection \<open>CopyData: the bytes\<close>

lemma CopyData_loop_stop:
  "\<not> y < height \<Longrightarrow> CopyData_loop y height s d ss ds n m = m"
  by (subst CopyData_loop.simps) simp

lemma CopyData_loop_step:
  "y < height \<Longrightarrow>
   CopyData_loop y height s d ss ds n m =
     CopyData_loop (y + 1) height (s + ss) (d + ds) ss ds n (memcpy d s n m)"
  by (subst CopyData_loop.simps) simp

lemma memcpy_outside: "\<not> in_range d n a \<Longrightarrow> memcpy d s n m a = m a"
  by (auto simp: memcpy_def in_range_def)


lemma in_rows_Suc:
  "in_rows d ds (Suc k) n a \<longleftrightarrow> in_range d n a \<or> in_rows (d + ds) ds k n a"
proof
  assume "in_rows d ds (Suc k) n a"
  then obtain y where y: "y < Suc k" "in_range (d + int y * ds) n a"
    by (auto simp: in_rows_def)
  show "in_range d n a \<or> in_rows (d + ds) ds k n a"
  proof (cases y)
    case 0
    with y show ?thesis by simp
  next
    case (Suc y')
    with y have "y' < k" "in_range (d + ds + int y' * ds) n a"
      by (simp_all add: algebra_simps)
    then show ?thesis by (auto simp: in_rows_def)
  qed
next
  assume "in_range d n a \<or> in_rows (d + ds) ds k n a"
  then show "in_rows d ds (Suc k) n a"
  proof
    assume "in_range d n a"
    then have "in_range (d + int 0 * ds) n a" by simp
    then show ?thesis unfolding in_rows_def by blast
  next
    assume "in_rows (d + ds) ds k n a"
    then obtain y where "y < k" "in_range (d + ds + int y * ds) n a"
      by (auto simp: in_rows_def)
    then have "Suc y < Suc k" "in_range (d + int (Suc y) * ds) n a"
      by (simp_all add: algebra_simps)
    then show ?thesis unfolding in_rows_def by blast
  qed
qed

lemma in_rows_0 [simp]: "\<not> in_rows d ds 0 n a"
  by (simp add: in_rows_def)

lemma CopyData_loop_frame:
  "k = nat (height - y) \<Longrightarrow> \<not> in_rows d ds k n a
   \<Longrightarrow> CopyData_loop y height s d ss ds n m a = m a"
proof (induction k arbitrary: y s d m)
  case 0
  then show ?case by (simp add: CopyData_loop_stop)
next
  case (Suc k)
  from Suc.prems(1) have lt: "y < height" and k: "k = nat (height - (y + 1))" by simp_all
  from Suc.prems(2) have out: "\<not> in_range d n a" and rest: "\<not> in_rows (d + ds) ds k n a"
    by (simp_all add: in_rows_Suc)
  show ?case
    by (simp add: CopyData_loop_step [OF lt] Suc.IH [OF k rest] memcpy_outside [OF out])
qed
















subsection \<open>Stride and line arithmetic\<close>

lemma align_shift_gen:
  "drop_bit k (x AND NOT (mask (k + j))) = push_bit j (drop_bit (k + j) x)"
  for x :: "'a::len word"
  by (rule bit_word_eqI) (auto simp: bit_simps dest: bit_imp_le_length)

lemma align_shift: "drop_bit 3 (x AND NOT 31) = push_bit 2 (drop_bit 5 (x::32 word))"
proof -
  have "(31::32 word) = mask (3 + 2)" by (simp add: mask_eq_exp_minus_1)
  then have "drop_bit 3 (x AND NOT 31) = drop_bit 3 (x AND NOT (mask (3 + 2)))"
    by (simp only:)
  also have "\<dots> = push_bit 2 (drop_bit (3 + 2) x)" by (rule align_shift_gen)
  finally show ?thesis by simp
qed

lemma unat_drop5: "unat (drop_bit 5 (w::32 word)) = unat w div 32"
  using unat_drop_bit_eq [of 5 w] by (simp add: drop_bit_eq_div)

lemma unat_drop3: "unat (drop_bit 3 (w::32 word)) = unat w div 8"
  using unat_drop_bit_eq [of 3 w] by (simp add: drop_bit_eq_div)

lemma unat_stride_general:
  "unat (XImageBytesPerStride b) = (unat (b + 31) div 32) * 4"
proof -
  have "unat (b + 31) < 2 ^ 32" using unsigned_less [of "b + 31"] by simp
  then have lt: "(unat (b + 31) div 32) * 4 < 2 ^ 32" by simp
  have "unat (push_bit 2 (drop_bit 5 (b + 31)))
          = take_bit 32 (push_bit 2 (unat (drop_bit 5 (b + 31))))"
    using unsigned_push_bit_eq [of 2 "drop_bit 5 (b + 31)", where 'a = nat] by simp
  also have "\<dots> = take_bit 32 ((unat (b + 31) div 32) * 4)"
    by (simp only: unat_drop5 push_bit_eq_mult) simp
  also have "\<dots> = (unat (b + 31) div 32) * 4"
    using lt by (simp only: take_bit_nat_eq_self_iff) 
  finally show ?thesis
    by (simp only: XImageBytesPerStride_def align_shift)
qed

lemma stride_dvd4: "4 dvd unat (XImageBytesPerStride b)"
  by (simp add: unat_stride_general)

lemma unat_line_general: "unat (XImageBytesPerLine b) = unat (b + 7) div 8"
  by (simp only: XImageBytesPerLine_def unat_drop3)

lemma unat_add_small:
  fixes b :: "32 word"
  assumes "unat b + k < 2 ^ 32"
  shows "unat (b + of_nat k) = unat b + k"
proof -
  have "unat (of_nat k :: 32 word) = k" using assms by (simp add: unat_of_nat)
  then show ?thesis using assms by (simp add: unat_add_lem [THEN iffD1])
qed

lemma unat_stride:
  assumes "unat b \<le> 2 ^ 32 - 32"
  shows "unat (XImageBytesPerStride b) = ((unat b + 31) div 32) * 4"
  using unat_add_small [of b 31] assms by (simp add: unat_stride_general)

lemma unat_line:
  assumes "unat b \<le> 2 ^ 32 - 8"
  shows "unat (XImageBytesPerLine b) = (unat b + 7) div 8"
  using unat_add_small [of b 7] assms by (simp add: unat_line_general)

lemma line_le_stride_nat: "(n + 7) div 8 \<le> ((n + 31) div 32) * 4" for n :: nat
proof -
  have "n + 7 \<le> 32 * ((n + 31) div 32) + 7" by simp
  then have "(n + 7) div 8 \<le> (32 * ((n + 31) div 32) + 7) div 8" by (rule div_le_mono)
  also have "\<dots> = ((n + 31) div 32) * 4" by simp
  finally show ?thesis .
qed

lemma line_le_stride:
  assumes "unat b \<le> 2 ^ 32 - 32"
  shows "unat (XImageBytesPerLine b) \<le> unat (XImageBytesPerStride b)"
proof -
  have "(unat b + 7) div 8 \<le> ((unat b + 31) div 32) * 4" by (rule line_le_stride_nat)
  then show ?thesis using assms by (simp add: unat_stride unat_line)
qed

lemma stride_lt: "unat (XImageBytesPerStride b) < 2 ^ 29"
proof -
  have "unat (b + 31) < 2 ^ 32" using unsigned_less [of "b + 31"] by simp
  then show ?thesis by (simp add: unat_stride_general)
qed

lemma sint_small:
  fixes w :: "32 word"
  assumes "unat w < 2 ^ 31"
  shows "sint w = int (unat w)"
proof -
  have u: "uint w = int (unat w)" by (rule uint_nat)
  have "sint w = signed_take_bit 31 (uint w)"
    using sint_uint [of w] by simp
  also have "\<dots> = uint w"
  proof (rule signed_take_bit_int_eq_self)
    have "- (2 ^ 31) \<le> (0::int)" by simp
    also have "0 \<le> uint w" by (rule uint_ge_0)
    finally show "- (2 ^ 31) \<le> uint w" .
    have "int (unat w) < int (2 ^ 31)" using assms by (simp only: of_nat_less_iff)
    then show "uint w < 2 ^ 31" unfolding u by simp
  qed
  finally show ?thesis unfolding u .
qed

lemma sint_stride: "sint (XImageBytesPerStride b) = int (unat (XImageBytesPerStride b))"
proof (rule sint_small)
  show "unat (XImageBytesPerStride b) < 2 ^ 31" using stride_lt [of b] by simp
qed


subsection \<open>Allocate, Clone and CopyDataOrClone: results\<close>

lemma Allocate_malloc_fails:
  "malloc_result rt = 0 \<Longrightarrow>
   Allocate rt width height format z st = (if control_block rt then Returns None st else Throws st)"
  by (simp add: Allocate_def malloc_def calloc_def shared_ptr_ctor_def Let_def)


lemma Allocate_throws:
  "\<not> control_block rt \<Longrightarrow> returned (Allocate rt width height format z st) = None"
  by (cases z)
     (simp_all add: Allocate_def malloc_def calloc_def shared_ptr_ctor_def new_nothrow_def Let_def
        split: option.splits)

lemma Allocate_malloc:
  "malloc_result rt \<noteq> 0 \<Longrightarrow> new_result rt = Some c \<Longrightarrow> control_block rt \<Longrightarrow>
   Allocate rt width height format False st =
     Returns (Some c)
      \<lparr>memory = memory st,
       allocated = (allocated st)(malloc_result rt \<mapsto>
          size_t_of_int (sint (height * XImageBytesPerStride (width * bitsPerPixel format)))),
       objects = (objects st)(c \<mapsto>
          (XImage_ctor (malloc_result rt) width height
             (XImageBytesPerStride (width * bitsPerPixel format)) format True, 1))\<rparr>"
  by (simp add: Allocate_def malloc_def shared_ptr_ctor_def new_nothrow_def Let_def)

lemma Allocate_calloc:
  "malloc_result rt \<noteq> 0 \<Longrightarrow> new_result rt = Some c \<Longrightarrow> control_block rt \<Longrightarrow>
   Allocate rt width height format True st =
     Returns (Some c)
      \<lparr>memory = (\<lambda>a. if malloc_result rt \<le> a \<and> a < malloc_result rt +
                 int (size_t_of_int (sint (height * XImageBytesPerStride (width * bitsPerPixel format))))
               then 0 else memory st a),
       allocated = (allocated st)(malloc_result rt \<mapsto>
          size_t_of_int (sint (height * XImageBytesPerStride (width * bitsPerPixel format)))),
       objects = (objects st)(c \<mapsto>
          (XImage_ctor (malloc_result rt) width height
             (XImageBytesPerStride (width * bitsPerPixel format)) format True, 1))\<rparr>"
  by (simp add: Allocate_def calloc_def shared_ptr_ctor_def new_nothrow_def Let_def)


lemma Clone_no_data: "mData this = 0 \<Longrightarrow> Clone rt this st = Returns None st"
  by (simp add: Clone_def)

lemma Clone_malloc_fails:
  "malloc_result rt = 0 \<Longrightarrow> control_block rt \<Longrightarrow> Clone rt this st = Returns None st"
  by (simp add: Clone_def Allocate_malloc_fails)


lemma Clone_throws:
  "mData this \<noteq> 0 \<Longrightarrow> \<not> control_block rt \<Longrightarrow>
   Clone rt this st =
     Throws (state_of (Allocate rt (mWidth this) (mHeight this) (mFormat this) False st))"
  using Allocate_throws [of rt "mWidth this" "mHeight this" "mFormat this" False st]
  by (cases "Allocate rt (mWidth this) (mHeight this) (mFormat this) False st")
     (simp_all add: Clone_def)

lemma Clone_copies:
  assumes "mData this \<noteq> 0" "malloc_result rt \<noteq> 0" "new_result rt = Some c" "control_block rt"
  shows "Clone rt this st =
     Returns (Some c)
      \<lparr>memory = CopyData_loop 0 (sint (mHeight this)) (mData this) (malloc_result rt)
                  (sint (mStride this))
                  (sint (XImageBytesPerStride (mWidth this * bitsPerPixel (mFormat this))))
                  (unat (XImageBytesPerLine (mWidth this * bitsPerPixel (mFormat this))))
                  (memory st),
       allocated = (allocated st)(malloc_result rt \<mapsto>
          size_t_of_int (sint (mHeight this *
             XImageBytesPerStride (mWidth this * bitsPerPixel (mFormat this))))),
       objects = (objects st)(c \<mapsto>
          (XImage_ctor (malloc_result rt) (mWidth this) (mHeight this)
             (XImageBytesPerStride (mWidth this * bitsPerPixel (mFormat this)))
             (mFormat this) True, 1))\<rparr>"
  using assms
  by (simp add: Clone_def Allocate_malloc CopyData_def deref_def XImage_ctor_def Let_def)

lemma release_None [simp]: "release None st = st"
  by (simp add: release_def)

lemma CopyDataOrClone_replace:
  assumes "deref st copyTo = None \<or> (\<exists>to. deref st copyTo = Some to \<and> \<not> same_format to this)"
  shows "CopyDataOrClone rt this copyTo st =
           (case Clone rt this st of
              Throws st1 \<Rightarrow> Throws st1
            | Returns clone st1 \<Rightarrow>
                Returns (if clone = None then OutOfMemory else Success, clone)
                  (release copyTo st1))"
  using assms
  by (auto simp: CopyDataOrClone_def same_format_def split: option.splits)

lemma CopyDataOrClone_in_place:
  assumes "deref st copyTo = Some to" "same_format to this"
  shows "CopyDataOrClone rt this copyTo st =
           Returns (fst (CopyData this copyTo st), copyTo) (snd (CopyData this copyTo st))"
  using assms
  by (auto simp: CopyDataOrClone_def same_format_def split: prod.splits option.splits)

text \<open>
  C10. When the source has no buffer and the destination pointer is empty or manages an
  image that differs from the source in width, height or format, \<open>CopyDataOrClone\<close>
  returns \<open>OutOfMemory\<close> and leaves the caller's pointer empty (what it held is given up).
  \<open>Clone\<close> of the data-less image returns the empty pointer and the unchanged state,
  which is exactly what \<open>Clone\<close> of any image returns when \<open>malloc\<close> fails and the
  call returns. Nothing is allocated for a data-less image, so no \<open>std::bad_alloc\<close> can
  leave these calls.
\<close>

theorem C10_CopyDataOrClone_no_data:
  assumes "mData this = 0"
    and "deref st copyTo = None \<or> (\<exists>to. deref st copyTo = Some to \<and> \<not> same_format to this)"
  shows "CopyDataOrClone rt this copyTo st = Returns (OutOfMemory, None) (release copyTo st)
       \<and> Clone rt this st = Returns None st
       \<and> (\<forall>rt' this'. malloc_result rt' = 0 \<and> (control_block rt' \<or> mData this' = 0)
             \<longrightarrow> Clone rt' this' st = Clone rt this st)"
proof -
  have c: "Clone rt this st = Returns None st" using assms(1) by (rule Clone_no_data)
  have "\<forall>rt' this'. malloc_result rt' = 0 \<and> (control_block rt' \<or> mData this' = 0)
          \<longrightarrow> Clone rt' this' st = Returns None st"
    by (auto simp: Clone_malloc_fails Clone_no_data)
  with c CopyDataOrClone_replace [OF assms(2), of rt]
  show ?thesis by simp
qed

lemma ex_release_3:
  "release (Some 3) ex_state =
     \<lparr>memory = memory ex_state, allocated = Map.empty,
      objects = [1 \<mapsto> (ex_src, 1), 2 \<mapsto> (ex_dst, 1)]\<rparr>"
  by (simp add: release_def ex_state_def XImage_dtor_def free_def ex_small_def fun_upd_twist)

theorem C10_CopyDataOrClone_no_data_witness:
  "CopyDataOrClone ex_rt ex_null None ex_state = Returns (OutOfMemory, None) ex_state
   \<and> CopyDataOrClone ex_rt ex_null (Some 3) ex_state
       = Returns (OutOfMemory, None) (release (Some 3) ex_state)
   \<and> CopyDataOrClone ex_rt_throw ex_null None ex_state = Returns (OutOfMemory, None) ex_state
   \<and> deref (release (Some 3) ex_state) (Some 3) = None
   \<and> Clone ex_rt_fail ex_src ex_state = Clone ex_rt ex_null ex_state"
proof -
  have m: "malloc_result ex_rt_fail = 0 \<and> (control_block ex_rt_fail \<or> mData ex_src = 0)"
    by (simp add: ex_rt_fail_def)
  have d: "mData ex_null = 0" by (simp add: ex_null_def)
  have n: "deref ex_state None = None
           \<or> (\<exists>to. deref ex_state None = Some to \<and> \<not> same_format to ex_null)"
    by simp
  have s: "deref ex_state (Some 3) = None
           \<or> (\<exists>to. deref ex_state (Some 3) = Some to \<and> \<not> same_format to ex_null)"
    by (simp add: same_format_def ex_small_def ex_null_def)
  have "deref (release (Some 3) ex_state) (Some 3) = None"
    by (simp add: ex_release_3 deref_def)
  with C10_CopyDataOrClone_no_data [OF d n, of ex_rt]
    C10_CopyDataOrClone_no_data [OF d s, of ex_rt]
    C10_CopyDataOrClone_no_data [OF d n, of ex_rt_throw] m
  show ?thesis by simp
qed




lemma ex_fresh [simp]:
  "fresh ex_rt ex_state" "fresh ex_rt_fail ex_state" "fresh ex_rt_throw ex_state"
  by (simp_all add: fresh_def ex_rt_def ex_rt_fail_def ex_rt_throw_def ex_state_def)

subsection \<open>Ownership\<close>

lemma objects_kept_same: "objects st' = objects st \<Longrightarrow> objects_kept st st'"
  by (simp add: objects_kept_def)

lemma shared_ptr_ctor_objects:
  "objects (state_of (shared_ptr_ctor rt p st)) =
     (case p of
        None \<Rightarrow> objects st
      | Some (h, img) \<Rightarrow> if control_block rt then (objects st)(h \<mapsto> (img, 1)) else objects st)"
  by (simp add: shared_ptr_ctor_def XImage_dtor_def free_def split: option.splits)

lemma malloc_objects [simp]: "objects (snd (malloc rt n st)) = objects st"
  by (simp add: malloc_def)

lemma calloc_objects [simp]: "objects (snd (calloc rt k n st)) = objects st"
  by (simp add: calloc_def)

lemma Allocate_objects:
  "objects (state_of (Allocate rt width height format z st)) =
     (if malloc_result rt = 0 \<or> \<not> control_block rt then objects st
      else case new_result rt of
             None \<Rightarrow> objects st
           | Some c \<Rightarrow> (objects st)(c \<mapsto>
               (XImage_ctor (malloc_result rt) width height
                  (XImageBytesPerStride (width * bitsPerPixel format)) format True, 1)))"
  by (cases z)
     (simp_all add: Allocate_def malloc_def calloc_def shared_ptr_ctor_objects new_nothrow_def
        Let_def split: option.splits)

lemma objects_kept_Allocate:
  "fresh rt st \<Longrightarrow> objects_kept st (state_of (Allocate rt width height format z st))"
  by (auto simp: objects_kept_def Allocate_objects fresh_def split: option.splits)

lemma objects_kept_Create:
  "fresh rt st \<Longrightarrow> objects_kept st (state_of (Create rt data width height stride format st))"
  by (auto simp: objects_kept_def Create_def shared_ptr_ctor_objects new_nothrow_def fresh_def
        split: option.splits)

lemma objects_kept_CopyData: "objects_kept st (snd (CopyData this copyTo st))"
  by (simp add: objects_kept_same)

lemma objects_kept_release: "objects_kept st (release p st)"
  by (auto simp: objects_kept_def release_def XImage_dtor_def free_def split: option.splits)

lemma objects_kept_trans_release:
  "objects_kept st st1 \<Longrightarrow> objects_kept st (release p st1)"
  by (auto simp: objects_kept_def release_def XImage_dtor_def free_def split: option.splits)

lemma Clone_objects:
  "objects (state_of (Clone rt this st)) =
     (if mData this = 0 then objects st
      else objects (state_of (Allocate rt (mWidth this) (mHeight this) (mFormat this) False st)))"
proof (cases "mData this = 0")
  case True
  then show ?thesis by (simp add: Clone_no_data)
next
  case d: False
  show ?thesis
  proof (cases "control_block rt")
    case False
    with d show ?thesis by (simp add: Clone_throws)
  next
    case cb: True
    show ?thesis
    proof (cases "malloc_result rt = 0")
      case True
      with cb d show ?thesis by (simp add: Clone_malloc_fails Allocate_malloc_fails)
    next
      case m: False
      show ?thesis
      proof (cases "new_result rt")
        case None
        with d m cb show ?thesis
          by (simp add: Clone_def Allocate_def malloc_def shared_ptr_ctor_def new_nothrow_def
                Let_def)
      next
        case (Some c)
        with d m cb show ?thesis by (simp add: Clone_copies Allocate_malloc)
      qed
    qed
  qed
qed

lemma objects_kept_Clone:
  assumes "fresh rt st"
  shows "objects_kept st (state_of (Clone rt this st))"
  using objects_kept_Allocate [OF assms, of "mWidth this" "mHeight this" "mFormat this" False]
  by (auto simp: objects_kept_def Clone_objects)

lemma objects_kept_CopyDataOrClone:
  assumes "fresh rt st"
  shows "objects_kept st (state_of (CopyDataOrClone rt this copyTo st))"
proof (cases "\<exists>to. deref st copyTo = Some to \<and> same_format to this")
  case True
  then obtain to where "deref st copyTo = Some to" "same_format to this" by auto
  from CopyDataOrClone_in_place [OF this] show ?thesis
    by (simp add: objects_kept_CopyData)
next
  case False
  then have "deref st copyTo = None \<or> (\<exists>to. deref st copyTo = Some to \<and> \<not> same_format to this)"
    by (cases "deref st copyTo") auto
  from CopyDataOrClone_replace [OF this, of rt] objects_kept_Clone [OF assms, of this]
  show ?thesis
    by (cases "Clone rt this st") (simp_all add: objects_kept_trans_release)
qed

lemma Allocate_Some:
  "returned (Allocate rt width height format z st) = Some (Some c)
   \<Longrightarrow> malloc_result rt \<noteq> 0 \<and> new_result rt = Some c \<and> control_block rt"
  by (cases z)
     (auto simp: Allocate_def malloc_def calloc_def shared_ptr_ctor_def new_nothrow_def Let_def
        split: option.splits if_splits)

lemma Allocate_allocated:
  "allocated (state_of (Allocate rt width height format z st)) =
     (if malloc_result rt = 0 then allocated st
      else if control_block rt \<or> new_result rt = None
      then (allocated st)(malloc_result rt \<mapsto>
             size_t_of_int (sint (height * XImageBytesPerStride (width * bitsPerPixel format))))
      else (allocated st)(malloc_result rt := None))"
  by (cases z)
     (auto simp: Allocate_def malloc_def calloc_def shared_ptr_ctor_def new_nothrow_def
        Let_def XImage_dtor_def XImage_ctor_def free_def split: option.splits)

lemma Create_Some:
  "returned (Create rt data width height stride format st) = Some (Some c)
   \<Longrightarrow> new_result rt = Some c \<and> control_block rt"
  by (auto simp: Create_def shared_ptr_ctor_def new_nothrow_def split: option.splits if_splits)

lemma Create_state:
  "new_result rt = Some c \<Longrightarrow> control_block rt \<Longrightarrow>
   state_of (Create rt data width height stride format st) =
     st\<lparr>objects := (objects st)(c \<mapsto> (XImage_ctor data width height stride format False, 1))\<rparr>"
  by (simp add: Create_def shared_ptr_ctor_def new_nothrow_def)

lemma Create_allocated:
  "allocated (state_of (Create rt data width height stride format st)) = allocated st"
  by (simp add: Create_def shared_ptr_ctor_def new_nothrow_def XImage_dtor_def XImage_ctor_def
        split: option.splits)

lemma XImage_dtor_allocated:
  "allocated (XImage_dtor this st) =
     (if mOwnMemory this \<and> mData this \<noteq> 0 then (allocated st)(mData this := None)
      else allocated st)"
  by (simp add: XImage_dtor_def free_def)

lemma XImage_dtor_memory: "memory (XImage_dtor this st) = memory st"
  by (simp add: XImage_dtor_def free_def)

lemma release_allocated:
  "objects st c = Some (img, n) \<Longrightarrow>
   allocated (release (Some c) st) =
     (if n \<le> 1 \<and> mOwnMemory img \<and> mData img \<noteq> 0 then (allocated st)(mData img := None)
      else allocated st)"
  by (simp add: release_def XImage_dtor_def free_def)


text \<open>
  C7. \<open>new\<close> returns no object that is in use. An image that \<open>Allocate\<close> returns owns
  its memory (\<open>mOwnMemory\<close> is true, its buffer is the block \<open>malloc\<close> gave), and when
  its only holder gives it up the block is freed. An image that \<open>Create\<close> returns does
  not own its memory, and giving it up frees nothing. None of \<open>Allocate\<close>, \<open>Create\<close>,
  \<open>CopyData\<close>, \<open>Clone\<close>, \<open>CopyDataOrClone\<close> and giving up a pointer changes a data
  member (\<open>mOwnMemory\<close> among them) of an object that stays alive, whether the call
  returns or is left by \<open>std::bad_alloc\<close>. The destructor frees the buffer if and only if
  \<open>mOwnMemory\<close> is true and the buffer is not \<open>nullptr\<close>, and writes no byte; a pointer
  that gives up its object frees the buffer if and only if it was the last holder and the
  destructor does. When \<open>shared_ptr\<close>'s constructor throws, the image \<open>Allocate\<close> had
  constructed is destroyed and its block freed, and \<open>Create\<close> has freed nothing.
\<close>

theorem C7_ownership:
  assumes "fresh rt st"
  shows "(\<forall>c. returned (Allocate rt width height format z st) = Some (Some c) \<longrightarrow>
            (\<exists>img. objects (state_of (Allocate rt width height format z st)) c = Some (img, 1)
                \<and> mOwnMemory img \<and> mData img = malloc_result rt \<and> mData img \<noteq> 0
                \<and> allocated (state_of (Allocate rt width height format z st)) (mData img)
                     \<noteq> None
                \<and> allocated (release (Some c) (state_of (Allocate rt width height format z st)))
                     (mData img) = None))
       \<and> (\<forall>c. returned (Create rt data width height stride format st) = Some (Some c) \<longrightarrow>
            (\<exists>img. objects (state_of (Create rt data width height stride format st)) c
                     = Some (img, 1)
                \<and> \<not> mOwnMemory img \<and> mData img = data)
            \<and> allocated (release (Some c)
                 (state_of (Create rt data width height stride format st))) = allocated st)
       \<and> objects_kept st (state_of (Allocate rt width height format z st))
       \<and> objects_kept st (state_of (Create rt data width height stride format st))
       \<and> objects_kept st (snd (CopyData this copyTo st))
       \<and> objects_kept st (state_of (Clone rt this st))
       \<and> objects_kept st (state_of (CopyDataOrClone rt this copyTo st))
       \<and> objects_kept st (release p st)
       \<and> allocated (XImage_dtor this st)
           = (if mOwnMemory this \<and> mData this \<noteq> 0 then (allocated st)(mData this := None)
              else allocated st)
       \<and> memory (XImage_dtor this st) = memory st
       \<and> (\<forall>c img n. objects st c = Some (img, n) \<longrightarrow>
            allocated (release (Some c) st)
              = (if n \<le> 1 \<and> mOwnMemory img \<and> mData img \<noteq> 0
                 then (allocated st)(mData img := None) else allocated st))
       \<and> (\<not> control_block rt \<and> malloc_result rt \<noteq> 0 \<and> new_result rt \<noteq> None \<longrightarrow>
            allocated (state_of (Allocate rt width height format z st)) (malloc_result rt)
              = None)
       \<and> allocated (state_of (Create rt data width height stride format st)) = allocated st"
proof (intro conjI allI impI)
  fix c
  assume a: "returned (Allocate rt width height format z st) = Some (Some c)"
  let ?st = "state_of (Allocate rt width height format z st)"
  let ?img = "XImage_ctor (malloc_result rt) width height
                (XImageBytesPerStride (width * bitsPerPixel format)) format True"
  from Allocate_Some [OF a] have m: "malloc_result rt \<noteq> 0" and n: "new_result rt = Some c"
    and cb: "control_block rt"
    by simp_all
  have o: "objects ?st c = Some (?img, 1)" using m n cb by (simp add: Allocate_objects)
  have "allocated ?st (mData ?img) \<noteq> None"
    using m cb by (simp add: Allocate_allocated XImage_ctor_def)
  moreover have "allocated (release (Some c) ?st) (mData ?img) = None"
    using m by (simp add: release_allocated [OF o] XImage_ctor_def)
  ultimately show "\<exists>img. objects ?st c = Some (img, 1)
      \<and> mOwnMemory img \<and> mData img = malloc_result rt \<and> mData img \<noteq> 0
      \<and> allocated ?st (mData img) \<noteq> None
      \<and> allocated (release (Some c) ?st) (mData img) = None"
    using o m by (intro exI [of _ ?img]) (simp add: XImage_ctor_def)
next
  fix c
  assume a: "returned (Create rt data width height stride format st) = Some (Some c)"
  let ?st = "state_of (Create rt data width height stride format st)"
  let ?img = "XImage_ctor data width height stride format False"
  from Create_Some [OF a] have n: "new_result rt = Some c" and cb: "control_block rt"
    by simp_all
  have o: "objects ?st c = Some (?img, 1)" by (simp add: Create_state [OF n cb])
  then show "\<exists>img. objects ?st c = Some (img, 1) \<and> \<not> mOwnMemory img \<and> mData img = data"
    by (intro exI [of _ ?img]) (simp add: XImage_ctor_def)
  show "allocated (release (Some c) ?st) = allocated st"
    by (simp add: release_allocated [OF o] XImage_ctor_def) (simp add: Create_state [OF n cb])
next
  show "objects_kept st (state_of (Allocate rt width height format z st))"
    using assms by (rule objects_kept_Allocate)
  show "objects_kept st (state_of (Create rt data width height stride format st))"
    using assms by (rule objects_kept_Create)
  show "objects_kept st (snd (CopyData this copyTo st))" by (rule objects_kept_CopyData)
  show "objects_kept st (state_of (Clone rt this st))" using assms by (rule objects_kept_Clone)
  show "objects_kept st (state_of (CopyDataOrClone rt this copyTo st))"
    using assms by (rule objects_kept_CopyDataOrClone)
  show "objects_kept st (release p st)" by (rule objects_kept_release)
  show "allocated (XImage_dtor this st)
           = (if mOwnMemory this \<and> mData this \<noteq> 0 then (allocated st)(mData this := None)
              else allocated st)"
    by (rule XImage_dtor_allocated)
  show "memory (XImage_dtor this st) = memory st" by (rule XImage_dtor_memory)
  show "allocated (state_of (Create rt data width height stride format st)) = allocated st"
    by (rule Create_allocated)
next
  fix c img n
  assume "objects st c = Some (img, n)"
  then show "allocated (release (Some c) st)
              = (if n \<le> 1 \<and> mOwnMemory img \<and> mData img \<noteq> 0
                 then (allocated st)(mData img := None) else allocated st)"
    by (rule release_allocated)
next
  assume "\<not> control_block rt \<and> malloc_result rt \<noteq> 0 \<and> new_result rt \<noteq> None"
  then show "allocated (state_of (Allocate rt width height format z st)) (malloc_result rt)
              = None"
    by (simp add: Allocate_allocated)
qed

theorem C7_ownership_witness:
  "(\<exists>img. objects (state_of (Allocate ex_rt 2 2 3 False ex_state)) 4 = Some (img, 1)
       \<and> mOwnMemory img \<and> mData img = 5000)
   \<and> allocated (state_of (Allocate ex_rt 2 2 3 False ex_state)) 5000 \<noteq> None
   \<and> allocated (release (Some 4) (state_of (Allocate ex_rt 2 2 3 False ex_state))) 5000 = None
   \<and> (\<exists>img. objects (state_of (Create ex_rt 3000 2 2 8 3 ex_state)) 4 = Some (img, 1)
       \<and> \<not> mOwnMemory img \<and> mData img = 3000)
   \<and> allocated (release (Some 4) (state_of (Create ex_rt 3000 2 2 8 3 ex_state))) 3000
       = Some 16
   \<and> allocated (release (Some 1) ex_state) = allocated ex_state
   \<and> allocated (release (Some 3) ex_state) 3000 = None
   \<and> objects_kept ex_state (state_of (CopyDataOrClone ex_rt ex_src (Some 3) ex_state))"
proof -
  note w = C7_ownership [OF ex_fresh(1), where width = 2 and height = 2 and format = 3
      and z = False and data = 3000 and stride = 8 and this = ex_src
      and copyTo = "Some 3" and p = "Some 3"]
  have rt: "malloc_result ex_rt \<noteq> 0" "new_result ex_rt = Some 4" "control_block ex_rt"
    by (simp_all add: ex_rt_def)
  have a: "returned (Allocate ex_rt 2 2 3 False ex_state) = Some (Some 4)"
    by (simp add: Allocate_malloc [OF rt])
  have c: "returned (Create ex_rt 3000 2 2 8 3 ex_state) = Some (Some 4)"
    by (simp add: Create_def shared_ptr_ctor_def new_nothrow_def ex_rt_def)
  have o1: "objects ex_state 1 = Some (ex_src, 1)" and o3: "objects ex_state 3 = Some (ex_small, 1)"
    by (simp_all add: ex_state_def)
  have al: "allocated ex_state 3000 = Some 16" by (simp add: ex_state_def)
  have mr: "malloc_result ex_rt = 5000" by (simp add: ex_rt_def)
  from w a obtain img where
    "objects (state_of (Allocate ex_rt 2 2 3 False ex_state)) 4 = Some (img, 1)"
    "mOwnMemory img" "mData img = malloc_result ex_rt"
    "allocated (state_of (Allocate ex_rt 2 2 3 False ex_state)) (mData img) \<noteq> None"
    "allocated (release (Some 4) (state_of (Allocate ex_rt 2 2 3 False ex_state))) (mData img)
       = None"
    by blast
  with mr have 1: "(\<exists>img. objects (state_of (Allocate ex_rt 2 2 3 False ex_state)) 4
                        = Some (img, 1)
       \<and> mOwnMemory img \<and> mData img = 5000)
     \<and> allocated (state_of (Allocate ex_rt 2 2 3 False ex_state)) 5000 \<noteq> None
     \<and> allocated (release (Some 4) (state_of (Allocate ex_rt 2 2 3 False ex_state))) 5000
         = None"
    by auto
  from w c have 2: "(\<exists>img. objects (state_of (Create ex_rt 3000 2 2 8 3 ex_state)) 4
                       = Some (img, 1)
       \<and> \<not> mOwnMemory img \<and> mData img = 3000)
     \<and> allocated (release (Some 4) (state_of (Create ex_rt 3000 2 2 8 3 ex_state)))
         = allocated ex_state"
    by blast
  from w o1 have 3: "allocated (release (Some 1) ex_state) = allocated ex_state"
    by (simp add: ex_src_def)
  from w o3 have 4: "allocated (release (Some 3) ex_state) 3000 = None"
    by (simp add: ex_small_def)
  from w have 5: "objects_kept ex_state
                    (state_of (CopyDataOrClone ex_rt ex_src (Some 3) ex_state))"
    by blast
  from 1 2 3 4 5 al show ?thesis by auto
qed

subsection \<open>Allocate: sizes\<close>

lemma Allocate_None_iff:
  "returned (Allocate rt width height format z st) = Some None
   \<longleftrightarrow> control_block rt \<and> (malloc_result rt = 0 \<or> new_result rt = None)"
  by (cases z)
     (auto simp: Allocate_def malloc_def calloc_def shared_ptr_ctor_def new_nothrow_def Let_def
        split: option.splits)

lemma Allocate_returns_iff:
  "returned (Allocate rt width height format z st) = None \<longleftrightarrow> \<not> control_block rt"
  by (cases z)
     (auto simp: Allocate_def malloc_def calloc_def shared_ptr_ctor_def new_nothrow_def Let_def
        split: option.splits)

lemma shared_ptr_ctor_memory:
  "memory (state_of (shared_ptr_ctor rt p st)) = memory st"
  by (simp add: shared_ptr_ctor_def XImage_dtor_def free_def split: option.splits)

lemma Allocate_memory_malloc:
  "memory (state_of (Allocate rt width height format False st)) = memory st"
  by (simp add: Allocate_def malloc_def shared_ptr_ctor_memory Let_def)

lemma Allocate_memory_calloc:
  "memory (state_of (Allocate rt width height format True st)) a =
     (if malloc_result rt \<noteq> 0 \<and> in_range (malloc_result rt)
           (size_t_of_int (sint (height * XImageBytesPerStride (width * bitsPerPixel format)))) a
      then 0 else memory st a)"
  by (simp add: Allocate_def calloc_def shared_ptr_ctor_memory Let_def in_range_def)

lemma zero_bits:
  "width = 0 \<or> bitsPerPixel format = 0 \<Longrightarrow> width * bitsPerPixel format = 0"
  by auto

lemma stride_0 [simp]: "XImageBytesPerStride 0 = 0"
  by (simp add: XImageBytesPerStride_def)

lemma line_0 [simp]: "XImageBytesPerLine 0 = 0"
  by (simp add: XImageBytesPerLine_def)

lemma size_t_0 [simp]: "size_t_of_int 0 = 0"
  by (simp add: size_t_of_int_def)

lemma memcpy_0 [simp]: "memcpy d s 0 m = m"
  by (rule ext) (auto simp: memcpy_def)

lemma in_rows_empty [simp]: "\<not> in_rows d ds h 0 a"
  by (simp add: in_rows_def in_range_def)

lemma CopyData_loop_0: "CopyData_loop y height s d ss ds 0 m = m"
  by (rule ext) (rule CopyData_loop_frame [OF refl], simp)

lemma CopyData_no_bytes:
  "lineSize this = 0 \<Longrightarrow> memory (snd (CopyData this copyTo st)) = memory st"
  by (auto simp: CopyData_def Let_def lineSize_def CopyData_loop_0 split: option.splits)

lemma bitsPerPixel_0_iff: "bitsPerPixel format = 0 \<longleftrightarrow> format \<notin> {1, 2, 3, 4}"
  by (simp add: bitsPerPixel_value)

text \<open>
  C9. When the width is 0, or the format is one whose \<open>bitsPerPixel\<close> is 0 (any tag
  other than 1, 2, 3, 4), \<open>Allocate\<close> computes the stride 0 and asks for 0 bytes, whatever
  the height. It rejects nothing itself: a result it returns is empty only when
  \<open>malloc\<close>/\<open>calloc\<close> or \<open>new\<close> fails, and it fails to return only when \<open>shared_ptr\<close>'s
  own allocation fails. When the runtime answers, the result is an owned image of stride 0
  whose block has 0 bytes. In every case no byte of memory has changed. A row of an image
  of that width and format has 0 bytes to copy: \<open>CopyData\<close> from it changes no byte.
\<close>

theorem C9_zero_size:
  assumes "width = 0 \<or> bitsPerPixel format = 0"
  shows "XImageBytesPerStride (width * bitsPerPixel format) = 0
       \<and> size_t_of_int (sint (height * XImageBytesPerStride (width * bitsPerPixel format))) = 0
       \<and> (\<forall>p. returned (Allocate rt width height format z st) = Some p \<longrightarrow>
              (p = None \<longleftrightarrow> malloc_result rt = 0 \<or> new_result rt = None))
       \<and> (returned (Allocate rt width height format z st) = None \<longleftrightarrow> \<not> control_block rt)
       \<and> (\<forall>c. malloc_result rt \<noteq> 0 \<and> new_result rt = Some c \<and> control_block rt \<longrightarrow>
              returned (Allocate rt width height format z st) = Some (Some c)
            \<and> objects (state_of (Allocate rt width height format z st)) c
                = Some (\<lparr>mData = malloc_result rt, mWidth = width, mHeight = height,
                          mStride = 0, mFormat = format, mOwnMemory = True\<rparr>, 1)
            \<and> allocated (state_of (Allocate rt width height format z st)) (malloc_result rt)
                = Some 0)
       \<and> memory (state_of (Allocate rt width height format z st)) = memory st
       \<and> (\<forall>img copyTo st'. mWidth img = width \<and> mFormat img = format \<longrightarrow>
              lineSize img = 0
            \<and> memory (snd (CopyData img copyTo st')) = memory st')"
proof -
  let ?A = "Allocate rt width height format z st"
  have b: "width * bitsPerPixel format = 0" using assms by (rule zero_bits)
  have s: "XImageBytesPerStride (width * bitsPerPixel format) = 0" by (simp add: b)
  have n: "size_t_of_int (sint (height * XImageBytesPerStride (width * bitsPerPixel format))) = 0"
    by (simp add: s)
  have l: "lineSize img = 0" if "mWidth img = width \<and> mFormat img = format" for img
    using that b by (simp add: lineSize_def)
  have m: "memory (state_of ?A) = memory st"
  proof (cases z)
    case True
    show ?thesis by (rule ext) (auto simp: True Allocate_memory_calloc n in_range_def)
  next
    case False
    then show ?thesis by (simp add: Allocate_memory_malloc)
  qed
  have e: "p = None \<longleftrightarrow> malloc_result rt = 0 \<or> new_result rt = None"
    if r: "returned ?A = Some p" for p
  proof -
    from r have cb: "control_block rt"
      using Allocate_returns_iff [of rt width height format z st] by auto
    from r have "p = None \<longleftrightarrow> returned ?A = Some None" by auto
    with cb show ?thesis by (simp add: Allocate_None_iff)
  qed
  have a: "returned ?A = Some (Some c)
         \<and> objects (state_of ?A) c
                = Some (\<lparr>mData = malloc_result rt, mWidth = width, mHeight = height,
                          mStride = 0, mFormat = format, mOwnMemory = True\<rparr>, 1)
         \<and> allocated (state_of ?A) (malloc_result rt) = Some 0"
    if h: "malloc_result rt \<noteq> 0 \<and> new_result rt = Some c \<and> control_block rt" for c
  proof -
    from h have "returned ?A \<noteq> None" by (simp add: Allocate_returns_iff)
    then obtain p where p: "returned ?A = Some p" by auto
    with e [OF p] h obtain c' where c': "returned ?A = Some (Some c')" by auto
    from Allocate_Some [OF c'] h have "c' = c" by simp
    with c' h show ?thesis
      by (simp add: Allocate_objects Allocate_allocated s n XImage_ctor_def)
  qed
  have c: "lineSize img = 0 \<and> memory (snd (CopyData img copyTo st')) = memory st'"
    if "mWidth img = width \<and> mFormat img = format" for img copyTo st'
    using l [OF that] by (simp add: CopyData_no_bytes)
  from s n m show ?thesis
  proof (intro conjI allI impI)
    fix p
    assume "returned ?A = Some p"
    then show "p = None \<longleftrightarrow> malloc_result rt = 0 \<or> new_result rt = None" by (rule e)
  next
    show "returned ?A = None \<longleftrightarrow> \<not> control_block rt" by (rule Allocate_returns_iff)
  next
    fix c
    assume h: "malloc_result rt \<noteq> 0 \<and> new_result rt = Some c \<and> control_block rt"
    from a [OF h] show "returned ?A = Some (Some c)" by simp
    from a [OF h] show "objects (state_of ?A) c
                = Some (\<lparr>mData = malloc_result rt, mWidth = width, mHeight = height,
                          mStride = 0, mFormat = format, mOwnMemory = True\<rparr>, 1)"
      by simp
    from a [OF h] show "allocated (state_of ?A) (malloc_result rt) = Some 0" by simp
  next
    fix img :: XImage and copyTo :: "handle option" and st' :: state
    assume h: "mWidth img = width \<and> mFormat img = format"
    from c [OF h] show "lineSize img = 0" by simp
    from c [OF h, of copyTo st'] show "memory (snd (CopyData img copyTo st')) = memory st'"
      by simp
  qed
qed

theorem C9_zero_size_witness:
  "XImageBytesPerStride (0 * bitsPerPixel 3) = 0
   \<and> returned (Allocate ex_rt 0 5 3 False ex_state) = Some (Some 4)
   \<and> allocated (state_of (Allocate ex_rt 0 5 3 False ex_state)) 5000 = Some 0
   \<and> bitsPerPixel 7 = 0
   \<and> returned (Allocate ex_rt 10 5 7 True ex_state) = Some (Some 4)
   \<and> objects (state_of (Allocate ex_rt 10 5 7 True ex_state)) 4
       = Some (\<lparr>mData = 5000, mWidth = 10, mHeight = 5, mStride = 0, mFormat = 7,
                 mOwnMemory = True\<rparr>, 1)
   \<and> memory (state_of (Allocate ex_rt 10 5 7 True ex_state)) = memory ex_state
   \<and> returned (Allocate ex_rt_fail 0 5 3 False ex_state) = Some None
   \<and> returned (Allocate ex_rt_throw 0 5 3 False ex_state) = None"
proof -
  have w0: "(0::int32_t) = 0 \<or> bitsPerPixel 3 = 0" by simp
  have w7: "(10::int32_t) = 0 \<or> bitsPerPixel 7 = 0" by (simp add: bitsPerPixel_value)
  have rt: "malloc_result ex_rt \<noteq> 0 \<and> new_result ex_rt = Some 4 \<and> control_block ex_rt"
    "malloc_result ex_rt = 5000"
    by (simp_all add: ex_rt_def)
  have f: "malloc_result ex_rt_fail = 0 \<or> new_result ex_rt_fail = None"
    "control_block ex_rt_fail"
    by (simp_all add: ex_rt_fail_def)
  have t: "\<not> control_block ex_rt_throw" by (simp add: ex_rt_throw_def)
  from C9_zero_size [OF w0, of 5 ex_rt False ex_state] rt
  have 1: "XImageBytesPerStride (0 * bitsPerPixel 3) = 0
     \<and> returned (Allocate ex_rt 0 5 3 False ex_state) = Some (Some 4)
     \<and> allocated (state_of (Allocate ex_rt 0 5 3 False ex_state)) 5000 = Some 0"
    by auto
  from C9_zero_size [OF w7, of 5 ex_rt True ex_state] rt
  have 2: "returned (Allocate ex_rt 10 5 7 True ex_state) = Some (Some 4)
     \<and> objects (state_of (Allocate ex_rt 10 5 7 True ex_state)) 4
       = Some (\<lparr>mData = 5000, mWidth = 10, mHeight = 5, mStride = 0, mFormat = 7,
                 mOwnMemory = True\<rparr>, 1)
     \<and> memory (state_of (Allocate ex_rt 10 5 7 True ex_state)) = memory ex_state"
    by auto
  from C9_zero_size [OF w0, of 5 ex_rt_fail False ex_state] f
  have 3: "returned (Allocate ex_rt_fail 0 5 3 False ex_state) = Some None"
    by (cases "returned (Allocate ex_rt_fail 0 5 3 False ex_state)") auto
  from C9_zero_size [OF w0, of 5 ex_rt_throw False ex_state] t
  have 4: "returned (Allocate ex_rt_throw 0 5 3 False ex_state) = None" by blast
  from 1 2 3 4 w7 show ?thesis by simp
qed

lemma wide_bits:
  "XImageBytesPerStride (536870911 * bitsPerPixel 1) = 0"
  "unat (XImageBytesPerLine (536870911 * bitsPerPixel 1)) = 536870911"
  by (simp_all add: bitsPerPixel_value XImageBytesPerStride_def XImageBytesPerLine_def)

lemma sint_mult_in_range:
  fixes a b :: "32 word"
  assumes "- (2 ^ 31) \<le> sint a * sint b" "sint a * sint b < 2 ^ 31"
  shows "sint (a * b) = sint a * sint b"
proof -
  have "sint (a * b) = signed_take_bit 31 (sint a * sint b)"
    using sint_word_mult [of a b] by simp
  also have "\<dots> = sint a * sint b"
    using assms by (rule signed_take_bit_int_eq_self)
  finally show ?thesis .
qed

text \<open>
  Where the 32-bit computations of \<open>Allocate\<close> do not wrap around, the image it returns
  has a stride that holds a row and is a multiple of 4, and a block of height times
  stride bytes.
\<close>

lemma Allocate_layout_in_range:
  assumes "unat (width * bitsPerPixel format) \<le> 2 ^ 32 - 32"
    and "0 \<le> sint height"
    and "sint height * int (unat (XImageBytesPerStride (width * bitsPerPixel format))) < 2 ^ 31"
    and "malloc_result rt \<noteq> 0" and "new_result rt = Some c" and "control_block rt"
  shows "\<exists>img. objects (state_of (Allocate rt width height format z st)) c = Some (img, 1)
           \<and> mStride img = XImageBytesPerStride (width * bitsPerPixel format)
           \<and> lineSize img \<le> unat (mStride img)
           \<and> 4 dvd unat (mStride img)
           \<and> allocated (state_of (Allocate rt width height format z st)) (mData img)
               = Some (nat (sint height) * unat (mStride img))"
proof -
  let ?s = "XImageBytesPerStride (width * bitsPerPixel format)"
  let ?img = "XImage_ctor (malloc_result rt) width height ?s format True"
  have o: "objects (state_of (Allocate rt width height format z st)) c = Some (?img, 1)"
    using assms(4,5,6) by (simp add: Allocate_objects)
  have l: "lineSize ?img \<le> unat ?s"
    using line_le_stride [OF assms(1)] by (simp add: lineSize_def XImage_ctor_def)
  have ss: "sint ?s = int (unat ?s)" by (rule sint_stride)
  have nn: "0 \<le> sint height * int (unat ?s)" using assms(2) by simp
  have "sint (height * ?s) = sint height * sint ?s"
  proof (rule sint_mult_in_range)
    have "- (2 ^ 31) \<le> (0::int)" by simp
    also have "0 \<le> sint height * sint ?s" using nn by (simp only: ss)
    finally show "- (2 ^ 31) \<le> sint height * sint ?s" .
    show "sint height * sint ?s < 2 ^ 31" using assms(3) by (simp only: ss)
  qed
  then have p: "sint (height * ?s) = sint height * int (unat ?s)" by (simp only: ss)
  have "sint height * int (unat ?s) < 2 ^ 64"
  proof -
    have "(2::int) ^ 31 < 2 ^ 64" by simp
    with assms(3) show ?thesis by (rule less_trans)
  qed
  then have "size_t_of_int (sint (height * ?s)) = nat (sint height * int (unat ?s))"
    unfolding p using nn by (intro size_t_of_int_nonneg)
  also have "\<dots> = nat (sint height) * unat ?s"
    using assms(2) by (simp add: nat_mult_distrib)
  finally have a: "allocated (state_of (Allocate rt width height format z st)) (malloc_result rt)
                    = Some (nat (sint height) * unat ?s)"
    using assms(4,6) by (simp add: Allocate_allocated)
  from o l a stride_dvd4 [of "width * bitsPerPixel format"] show ?thesis
    by (intro exI [of _ ?img]) (simp add: XImage_ctor_def)
qed


text \<open>
  C5. \<open>Allocate\<close> for a width of 536870911 pixels of 8 bits (format tag 1), one row:
  the row has \<open>536870911 * 8 = 2 ^ 32 - 8\<close> bits, \<open>bitsPerLine + 31\<close> wraps around to
  23, and the stride is 0 while a row has 536870911 bytes. The runtime answering, the
  result is an image with stride 0 in a block of 0 bytes.
\<close>

theorem C5_Allocate_stride_wraps:
  "XImageBytesPerStride (536870911 * bitsPerPixel 1) = 0
   \<and> unat (XImageBytesPerLine (536870911 * bitsPerPixel 1)) = 536870911
   \<and> returned (Allocate ex_rt 536870911 1 1 False ex_state) = Some (Some 4)
   \<and> objects (state_of (Allocate ex_rt 536870911 1 1 False ex_state)) 4
       = Some (\<lparr>mData = 5000, mWidth = 536870911, mHeight = 1, mStride = 0, mFormat = 1,
                 mOwnMemory = True\<rparr>, 1)
   \<and> allocated (state_of (Allocate ex_rt 536870911 1 1 False ex_state)) 5000 = Some 0"
proof -
  have rt: "malloc_result ex_rt \<noteq> 0" "new_result ex_rt = Some 4" "control_block ex_rt"
    "malloc_result ex_rt = 5000"
    by (simp_all add: ex_rt_def)
  show ?thesis
    by (simp add: wide_bits Allocate_malloc [OF rt(1,2,3)] rt(4) XImage_ctor_def)
qed

lemma ex_wide_lineSize: "lineSize ex_wide = 536870911"
  by (simp add: lineSize_def ex_wide_def wide_bits)

text \<open>
  C4. \<open>Clone\<close> of the two-row image of width 536870911: the clone has stride 0, so both
  rows are copied to the same address; the first byte of the clone's first row is the
  first byte of the source's second row (3), not of its first (0), and the clone's rows
  are not the source's.
\<close>

theorem C4_Clone_wide_rows_collide:
  "returned (Clone ex_rt ex_wide ex_state) = Some (Some 4)
   \<and> objects (state_of (Clone ex_rt ex_wide ex_state)) 4
       = Some (\<lparr>mData = 5000, mWidth = 536870911, mHeight = 2, mStride = 0, mFormat = 1,
                 mOwnMemory = True\<rparr>, 1)
   \<and> lineSize ex_wide = 536870911 \<and> rowCount ex_wide = 2
   \<and> memory ex_state (mData ex_wide) = 0
   \<and> memory (state_of (Clone ex_rt ex_wide ex_state)) 5000 = 3
   \<and> (\<exists>y<rowCount ex_wide. \<exists>i<lineSize ex_wide.
         memory (state_of (Clone ex_rt ex_wide ex_state)) (5000 + int y * 0 + int i)
           \<noteq> memory ex_state (mData ex_wide + int y * sint (mStride ex_wide) + int i))"
proof -
  have rt: "malloc_result ex_rt \<noteq> 0" "new_result ex_rt = Some 4" "malloc_result ex_rt = 5000"
    "control_block ex_rt"
    by (simp_all add: ex_rt_def)
  have d: "mData ex_wide \<noteq> 0" by (simp add: ex_wide_def)
  note c = Clone_copies [OF d rt(1,2,4), of ex_state]
  have v: "mWidth ex_wide = 536870911" "mHeight ex_wide = 2" "mFormat ex_wide = 1"
    "mData ex_wide = 2147483648" "sint (mStride ex_wide) = 536870915"
    by (simp_all add: ex_wide_def)
  have m0: "memory (state_of (Clone ex_rt ex_wide ex_state)) =
              CopyData_loop 0 2 2147483648 5000 536870915 0 536870911 (memory ex_state)"
    by (simp add: c v rt(3) wide_bits)
  have e: "memory ex_state 2684354563 = 3" by (simp add: ex_state_def)
  have m: "memory (state_of (Clone ex_rt ex_wide ex_state)) 5000 = 3"
    unfolding m0 by (simp add: CopyData_loop_step CopyData_loop_stop memcpy_def e)
  have s: "memory ex_state (mData ex_wide) = 0" by (simp add: v ex_state_def)
  have k: "rowCount ex_wide = 2" by (simp add: rowCount_def v)
  have "memory (state_of (Clone ex_rt ex_wide ex_state)) (5000 + int 0 * 0 + int 0)
          \<noteq> memory ex_state (mData ex_wide + int 0 * sint (mStride ex_wide) + int 0)"
    using m s by simp
  moreover have "(0::nat) < rowCount ex_wide" "(0::nat) < lineSize ex_wide"
    by (simp_all add: k ex_wide_lineSize)
  ultimately have differ: "\<exists>y<rowCount ex_wide. \<exists>i<lineSize ex_wide.
         memory (state_of (Clone ex_rt ex_wide ex_state)) (5000 + int y * 0 + int i)
           \<noteq> memory ex_state (mData ex_wide + int y * sint (mStride ex_wide) + int i)"
    by blast
  have f: "returned (Clone ex_rt ex_wide ex_state) = Some (Some 4)" by (simp add: c)
  have o: "objects (state_of (Clone ex_rt ex_wide ex_state)) 4
       = Some (\<lparr>mData = 5000, mWidth = 536870911, mHeight = 2, mStride = 0, mFormat = 1,
                 mOwnMemory = True\<rparr>, 1)"
    by (simp add: c v rt(3) wide_bits XImage_ctor_def)
  from f o ex_wide_lineSize k s m differ show ?thesis by blast
qed

subsection \<open>Clone: the bytes, and the round trip\<close>


lemma rows_apart_sym: "rows_apart p ps q qs h n \<Longrightarrow> rows_apart q qs p ps h n"
  by (auto simp: rows_apart_def ranges_apart_def)




lemma release_memory [simp]: "memory (release p st) = memory st"
  by (auto simp: release_def XImage_dtor_def free_def split: option.splits)

















subsection \<open>CopyDataOrClone: the destination\<close>














end
